theory Spec2Isabelle
  imports Complex_Main
begin

section \<open>Values and syntax nodes (src/lox/ast.py, src/lox/runtime.py)\<close>

text \<open>
  The operations that the transformer binds to \<open>BinOp\<close> and \<open>UnaryOp\<close> nodes
  (\<open>add = op_handler(op.add)\<close>, ..., \<open>div = op_handler(op.floordiv)\<close>,
  \<open>UnaryOp(op.not_, value)\<close>, \<open>UnaryOp(op.neg, value)\<close>). The field \<open>op\<close> of the node is
  a Python callable; the model names the callables that transformer.py uses.
\<close>

datatype binop = op_add | op_sub | op_mul | op_floordiv
  | op_gt | op_lt | op_ge | op_le | op_eq | op_ne

datatype unop = op_not | op_neg

text \<open>
  \<open>Param\<close> is the dataclass of ast.py (name, optional type annotation). A parameter list
  holds either plain names or \<open>Param\<close> objects: \<open>Function.eval\<close> hands \<open>self.params\<close>
  itself to \<open>LoxFunction\<close> (the list \<open>param_names\<close> it computes is not used), and
  \<open>LoxFunction.call\<close> passes each element of that list to \<open>var_def\<close>. A binding table is
  therefore keyed by \<open>key\<close>: a string, or a \<open>Param\<close> object.
\<close>

datatype param = Param string "string option"

datatype key = KStr string | KObj param

text \<open>
  Python values that the evaluator handles: \<open>None\<close>, \<open>bool\<close>, \<open>int\<close> (produced by
  \<open>auto_convert\<close> and by \<open>BinOp.eval\<close>), \<open>float\<close>, \<open>str\<close> and \<open>LoxFunction\<close> (name,
  params, body, closure; the closure is the address of an environment in the store).

  A \<open>float\<close> is modelled by the real number it holds: rounding, infinities and NaN are
  outside the model. A \<open>str\<close> is a list of characters, each read as one code point
  below 256.

  The node classes \<open>This\<close>, \<open>Super\<close> and \<open>Class\<close> define no \<open>eval\<close> and are never built
  by transformer.py; they are left out.
\<close>

datatype Value = VNone | VBool bool | VInt int | VFloat real | VStr string
  | VFun string "key list" node nat
and node = Program "node list"
  | DoWhileStmt node node
  | BinOp node node binop
  | Var string
  | Literal Value
  | And node node
  | Or node node
  | UnaryOp unop node
  | Call node "node list"
  | Assign string node
  | Getattr node string
  | Setattr node string node
  | Print node
  | Return "node option"
  | VarDef string "node option" "string option"
  | If_stmt node node "node option"
  | While node node
  | Block "node list"
  | Function string "key list" node

text \<open>
  Python exceptions. \<open>TypeError\<close> carries what its message reports: the callee node
  (\<open>f"{self.obj} nao e uma funcao!"\<close> in \<open>Call.eval\<close>), or the expected and the actual
  argument count (\<open>f"Expected {len(self.params)} arguments but got {len(args)}."\<close> in
  \<open>LoxFunction.call\<close>), or an operator applied to operands it does not support.
  \<open>LoxReturn\<close> is the exception class of runtime.py.
\<close>

datatype type_error = NotAFunction node | ExpectedArgs nat nat | UnsupportedOperand

datatype exn = LoxReturn Value | NameError string | KeyError key | TypeError type_error
  | AttributeError | ValueError | ZeroDivisionError

subsection \<open>Python's numbers and strings\<close>

text \<open>\<open>bool\<close> is a subclass of \<open>int\<close>: in arithmetic \<open>True\<close> is 1 and \<open>False\<close> is 0.\<close>

datatype pynum = NInt int | NFloat real

fun num_of :: "Value \<Rightarrow> pynum option" where
  "num_of (VBool b) = Some (NInt (if b then 1 else 0))"
| "num_of (VInt i) = Some (NInt i)"
| "num_of (VFloat r) = Some (NFloat r)"
| "num_of _ = None"

fun num_val :: "pynum \<Rightarrow> real" where
  "num_val (NInt i) = of_int i"
| "num_val (NFloat r) = r"

text \<open>\<open>float.is_integer()\<close> and \<open>int(x)\<close> on a float (truncation towards zero).\<close>

definition float_is_integer :: "real \<Rightarrow> bool" where
  "float_is_integer r = (of_int \<lfloor>r\<rfloor> = r)"

definition int_of_float :: "real \<Rightarrow> int" where
  "int_of_float r = (if r < 0 then \<lceil>r\<rceil> else \<lfloor>r\<rfloor>)"

text \<open>
  \<open>str.isdigit()\<close>: true when the string is not empty and every character is a digit.
  Besides \<open>0\<close>..\<open>9\<close>, the code points below 256 that Python counts as digits are the
  superscripts U+00B2, U+00B3 and U+00B9. \<open>int(s)\<close> accepts only decimal digits, so on a
  string that passed \<open>isdigit()\<close> it raises \<open>ValueError\<close> when a superscript occurs.
  (CPython's limit on the length of a decimal string is not modelled.)
\<close>

definition is_decimal_char :: "char \<Rightarrow> bool" where
  "is_decimal_char c = (c \<in> set ''0123456789'')"

definition is_digit_char :: "char \<Rightarrow> bool" where
  "is_digit_char c = (is_decimal_char c \<or> c = CHR 0xB2 \<or> c = CHR 0xB3 \<or> c = CHR 0xB9)"

definition str_isdigit :: "string \<Rightarrow> bool" where
  "str_isdigit s = (s \<noteq> [] \<and> list_all is_digit_char s)"

definition digit_val :: "char \<Rightarrow> int" where
  "digit_val c = int (of_char c) - 48"

definition decimal_val :: "string \<Rightarrow> int" where
  "decimal_val s = foldl (\<lambda>acc c. 10 * acc + digit_val c) 0 s"

definition int_of_digit_str :: "string \<Rightarrow> exn + int" where
  "int_of_digit_str s =
     (if list_all is_decimal_char s then Inr (decimal_val s) else Inl ValueError)"

text \<open>\<open>str(i)\<close> for an \<open>int\<close>.\<close>

function show_nat :: "nat \<Rightarrow> string" where
  "show_nat n =
     (if n < 10 then [''0123456789'' ! n]
      else show_nat (n div 10) @ [''0123456789'' ! (n mod 10)])"
  by pat_completeness auto
termination
  by (relation "measure id") auto

declare show_nat.simps [simp del]

definition show_int :: "int \<Rightarrow> string" where
  "show_int i = (if i < 0 then CHR ''-'' # show_nat (nat (- i)) else show_nat (nat i))"

text \<open>Comparison of two \<open>str\<close>: lexicographic, by code point.\<close>

fun str_lt :: "string \<Rightarrow> string \<Rightarrow> bool" where
  "str_lt [] [] = False"
| "str_lt [] (y # ys) = True"
| "str_lt (x # xs) [] = False"
| "str_lt (x # xs) (y # ys) =
     ((of_char x :: nat) < of_char y \<or> (x = y \<and> str_lt xs ys))"

subsection \<open>The functions of the module \<open>operator\<close> that transformer.py binds\<close>

definition py_add :: "Value \<Rightarrow> Value \<Rightarrow> exn + Value" where
  "py_add a b =
     (case (num_of a, num_of b) of
        (Some (NInt i), Some (NInt j)) \<Rightarrow> Inr (VInt (i + j))
      | (Some x, Some y) \<Rightarrow> Inr (VFloat (num_val x + num_val y))
      | _ \<Rightarrow> (case (a, b) of
                (VStr s, VStr t) \<Rightarrow> Inr (VStr (s @ t))
              | _ \<Rightarrow> Inl (TypeError UnsupportedOperand)))"

definition py_sub :: "Value \<Rightarrow> Value \<Rightarrow> exn + Value" where
  "py_sub a b =
     (case (num_of a, num_of b) of
        (Some (NInt i), Some (NInt j)) \<Rightarrow> Inr (VInt (i - j))
      | (Some x, Some y) \<Rightarrow> Inr (VFloat (num_val x - num_val y))
      | _ \<Rightarrow> Inl (TypeError UnsupportedOperand))"

definition str_repeat :: "string \<Rightarrow> int \<Rightarrow> string" where
  "str_repeat s k = concat (replicate (nat k) s)"

definition py_mul :: "Value \<Rightarrow> Value \<Rightarrow> exn + Value" where
  "py_mul a b =
     (case (num_of a, num_of b) of
        (Some (NInt i), Some (NInt j)) \<Rightarrow> Inr (VInt (i * j))
      | (Some x, Some y) \<Rightarrow> Inr (VFloat (num_val x * num_val y))
      | (Some (NInt i), None) \<Rightarrow>
          (case b of VStr s \<Rightarrow> Inr (VStr (str_repeat s i))
           | _ \<Rightarrow> Inl (TypeError UnsupportedOperand))
      | (None, Some (NInt j)) \<Rightarrow>
          (case a of VStr s \<Rightarrow> Inr (VStr (str_repeat s j))
           | _ \<Rightarrow> Inl (TypeError UnsupportedOperand))
      | _ \<Rightarrow> Inl (TypeError UnsupportedOperand))"

text \<open>\<open>floordiv\<close> of runtime.py: \<open>a // b\<close>.\<close>

definition floordiv :: "Value \<Rightarrow> Value \<Rightarrow> exn + Value" where
  "floordiv a b =
     (case (num_of a, num_of b) of
        (Some (NInt i), Some (NInt j)) \<Rightarrow>
          (if j = 0 then Inl ZeroDivisionError else Inr (VInt (i div j)))
      | (Some x, Some y) \<Rightarrow>
          (if num_val y = 0 then Inl ZeroDivisionError
           else Inr (VFloat (of_int \<lfloor>num_val x / num_val y\<rfloor>)))
      | _ \<Rightarrow> Inl (TypeError UnsupportedOperand))"

definition py_lt :: "Value \<Rightarrow> Value \<Rightarrow> exn + Value" where
  "py_lt a b =
     (case (num_of a, num_of b) of
        (Some x, Some y) \<Rightarrow> Inr (VBool (num_val x < num_val y))
      | _ \<Rightarrow> (case (a, b) of
                (VStr s, VStr t) \<Rightarrow> Inr (VBool (str_lt s t))
              | _ \<Rightarrow> Inl (TypeError UnsupportedOperand)))"

definition py_le :: "Value \<Rightarrow> Value \<Rightarrow> exn + Value" where
  "py_le a b =
     (case (num_of a, num_of b) of
        (Some x, Some y) \<Rightarrow> Inr (VBool (num_val x \<le> num_val y))
      | _ \<Rightarrow> (case (a, b) of
                (VStr s, VStr t) \<Rightarrow> Inr (VBool (s = t \<or> str_lt s t))
              | _ \<Rightarrow> Inl (TypeError UnsupportedOperand)))"

text \<open>
  \<open>==\<close>: numbers compare by value (\<open>True == 1\<close>, \<open>1 == 1.0\<close>); otherwise two values are
  equal when they are the same value. Two \<open>LoxFunction\<close> objects (a dataclass) compare
  field by field; the closure is compared by its address.
\<close>

definition py_eq :: "Value \<Rightarrow> Value \<Rightarrow> bool" where
  "py_eq a b =
     (case (num_of a, num_of b) of
        (Some x, Some y) \<Rightarrow> num_val x = num_val y
      | _ \<Rightarrow> a = b)"

fun apply_binop :: "binop \<Rightarrow> Value \<Rightarrow> Value \<Rightarrow> exn + Value" where
  "apply_binop op_add a b = py_add a b"
| "apply_binop op_sub a b = py_sub a b"
| "apply_binop op_mul a b = py_mul a b"
| "apply_binop op_floordiv a b = floordiv a b"
| "apply_binop op_gt a b = py_lt b a"
| "apply_binop op_lt a b = py_lt a b"
| "apply_binop op_ge a b = py_le b a"
| "apply_binop op_le a b = py_le a b"
| "apply_binop op_eq a b = Inr (VBool (py_eq a b))"
| "apply_binop op_ne a b = Inr (VBool (\<not> py_eq a b))"

text \<open>
  Python's truth value of an object, which \<open>operator.not_\<close> negates: \<open>None\<close>, \<open>False\<close>,
  a zero number and the empty string are false, everything else is true.
\<close>

fun py_bool :: "Value \<Rightarrow> bool" where
  "py_bool VNone = False"
| "py_bool (VBool b) = b"
| "py_bool (VInt i) = (i \<noteq> 0)"
| "py_bool (VFloat r) = (r \<noteq> 0)"
| "py_bool (VStr s) = (s \<noteq> [])"
| "py_bool (VFun n ps b c) = True"

fun apply_unop :: "unop \<Rightarrow> Value \<Rightarrow> exn + Value" where
  "apply_unop op_not v = Inr (VBool (\<not> py_bool v))"
| "apply_unop op_neg v =
     (case num_of v of
        Some (NInt i) \<Rightarrow> Inr (VInt (- i))
      | Some (NFloat r) \<Rightarrow> Inr (VFloat (- r))
      | None \<Rightarrow> Inl (TypeError UnsupportedOperand))"

subsection \<open>\<open>is_implicit_int\<close>, \<open>auto_convert\<close>, \<open>is_truthy\<close> (ast.py)\<close>

definition is_implicit_int :: "string \<Rightarrow> bool" where
  "is_implicit_int name = (name \<noteq> [] \<and> hd name \<in> set ''ijklmn'')"

definition auto_convert :: "string \<Rightarrow> Value \<Rightarrow> exn + Value" where
  "auto_convert name v =
     (if is_implicit_int name then
        (case v of
           VStr s \<Rightarrow>
             (if str_isdigit s then
                (case int_of_digit_str s of Inl e \<Rightarrow> Inl e | Inr i \<Rightarrow> Inr (VInt i))
              else Inr v)
         | VFloat r \<Rightarrow> Inr (VInt (int_of_float r))
         | VBool b \<Rightarrow> Inr (VInt (if b then 1 else 0))
         | _ \<Rightarrow> Inr v)
      else Inr v)"

fun is_truthy :: "Value \<Rightarrow> bool" where
  "is_truthy VNone = False"
| "is_truthy (VBool b) = b"
| "is_truthy _ = True"

section \<open>Environments\<close>

text \<open>
  Environments are objects of the class \<open>Ctx\<close> of the module \<open>lox.ctx\<close>. ast.py and
  runtime.py import the class and use it (\<open>Ctx(scope={}, parent=ctx)\<close>,
  \<open>ctx.var_def(name, value)\<close>, \<open>ctx[name]\<close>, \<open>ctx[name] = value\<close>); its definition is not
  among the sources verified here, and its operations follow the spec's description.
  Environments are shared and mutated in place, so they live in a store: a list of
  frames, an environment being the index of its frame.
\<close>

record frame =
  scope :: "(key \<times> Value) list"
  parent :: "nat option"

text \<open>
  Storing into a binding table (a Python \<open>dict\<close>): an existing key keeps its place, a
  new key is appended.
\<close>

fun dict_set :: "(key \<times> Value) list \<Rightarrow> key \<Rightarrow> Value \<Rightarrow> (key \<times> Value) list" where
  "dict_set [] k v = [(k, v)]"
| "dict_set ((k', v') # d) k v =
     (if k' = k then (k, v) # d else (k', v') # dict_set d k v)"

text \<open>
  Modelled from the spec: the constructor of \<open>Ctx\<close> (its class is missing). An
  environment is a binding table plus an optional reference to a parent; a new one is
  a new frame of the store, whose address is the length of the store before.
\<close>

definition Ctx :: "(key \<times> Value) list \<Rightarrow> nat option \<Rightarrow> frame list \<Rightarrow> frame list" where
  "Ctx sc p fs = fs @ [\<lparr>scope = sc, parent = p\<rparr>]"

text \<open>
  Modelled from the spec: the method \<open>Ctx.var_def\<close> (missing), the spec's \<open>define\<close>: it
  inserts or overwrites a binding in this environment only and always succeeds.
\<close>

definition var_def :: "frame list \<Rightarrow> nat \<Rightarrow> key \<Rightarrow> Value \<Rightarrow> frame list" where
  "var_def fs a k v = fs[a := (fs ! a)\<lparr>scope := dict_set (scope (fs ! a)) k v\<rparr>]"

text \<open>
  Modelled from the spec: the walk along the chain that the spec's \<open>lookup\<close> and \<open>assign\<close>
  share (the methods of \<open>Ctx\<close> are missing): the nearest environment, starting from \<open>a\<close>,
  that defines \<open>k\<close>. The first argument bounds the length of the walk; a chain of a store
  with \<open>n\<close> frames that visits no frame twice has at most \<open>n\<close> members.
\<close>

fun ctx_find :: "nat \<Rightarrow> frame list \<Rightarrow> nat \<Rightarrow> key \<Rightarrow> nat option" where
  "ctx_find 0 fs a k = None"
| "ctx_find (Suc d) fs a k =
     (if a < length fs then
        (case map_of (scope (fs ! a)) k of
           Some v \<Rightarrow> Some a
         | None \<Rightarrow> (case parent (fs ! a) of
                      None \<Rightarrow> None
                    | Some p \<Rightarrow> ctx_find d fs p k))
      else None)"

text \<open>
  Modelled from the spec: \<open>ctx[name]\<close> (the method is missing), the spec's \<open>lookup\<close>: it
  checks the local bindings, otherwise delegates to the parent, and fails when no
  environment of the chain has the name. The failure is a \<open>KeyError\<close>, the exception that
  \<open>Var.eval\<close> catches around \<open>ctx[self.name]\<close>.
\<close>

definition ctx_getitem :: "frame list \<Rightarrow> nat \<Rightarrow> key \<Rightarrow> exn + Value" where
  "ctx_getitem fs a k =
     (case ctx_find (length fs) fs a k of
        None \<Rightarrow> Inl (KeyError k)
      | Some b \<Rightarrow> (case map_of (scope (fs ! b)) k of
                     None \<Rightarrow> Inl (KeyError k)
                   | Some v \<Rightarrow> Inr v))"

text \<open>
  Modelled from the spec: \<open>ctx[name] = value\<close> (the method is missing), the spec's
  \<open>assign\<close>: it overwrites the binding in the nearest environment of the chain that
  already defines the name, and fails when no environment of the chain defines it (the
  failure is taken to be the \<open>KeyError\<close> of the lookup).
\<close>

definition ctx_setitem :: "frame list \<Rightarrow> nat \<Rightarrow> key \<Rightarrow> Value \<Rightarrow> exn + frame list" where
  "ctx_setitem fs a k v =
     (case ctx_find (length fs) fs a k of
        None \<Rightarrow> Inl (KeyError k)
      | Some b \<Rightarrow> Inr (var_def fs b k v))"

section \<open>The evaluator (ast.py, runtime.py)\<close>

text \<open>
  The state of an evaluation: the store of environments, the lines printed so far, and
  the attribute storage of the host's objects. What Python itself decides and the
  repository does not is a parameter of the evaluator: \<open>str(value)\<close> of a float that
  holds no whole number and of a \<open>LoxFunction\<close>, and \<open>getattr\<close>/\<open>setattr\<close> on a value
  (which read and write the attribute storage of type \<open>'a\<close>). A \<open>setattr\<close> that replaces
  one of the fields of a \<open>LoxFunction\<close> object is not reflected in later calls of it.
\<close>

record 'a state =
  envs :: "frame list"
  out :: "string list"
  objs :: 'a

record 'a host =
  host_str :: "Value \<Rightarrow> string"
  host_getattr :: "Value \<Rightarrow> string \<Rightarrow> 'a \<Rightarrow> exn + Value"
  host_setattr :: "Value \<Rightarrow> string \<Rightarrow> Value \<Rightarrow> 'a \<Rightarrow> exn + 'a"

definition lox_str :: "'a host \<Rightarrow> Value \<Rightarrow> string" where
  "lox_str h v =
     (case v of
        VNone \<Rightarrow> ''nil''
      | VBool b \<Rightarrow> (if b then ''true'' else ''false'')
      | VFloat r \<Rightarrow> (if float_is_integer r then show_int (int_of_float r) else host_str h v)
      | VInt i \<Rightarrow> show_int i
      | VStr s \<Rightarrow> s
      | VFun n ps b c \<Rightarrow> host_str h v)"

text \<open>
  The last lines of \<open>BinOp.eval\<close>: the value returned for operand values \<open>lv\<close>, \<open>rv\<close> and
  the result \<open>res\<close> of the operation.
\<close>

definition binop_result :: "Value \<Rightarrow> Value \<Rightarrow> Value \<Rightarrow> Value" where
  "binop_result lv rv res =
     (case (lv, rv, res) of
        (VFloat a, VFloat b, VFloat r) \<Rightarrow>
          (if float_is_integer a \<and> float_is_integer b then VInt (int_of_float r) else res)
      | _ \<Rightarrow> res)"

text \<open>
  An evaluation either runs out of fuel (\<open>None\<close>: the model of a run that does not
  return) or ends with an exception (\<open>Inl\<close>) or a value (\<open>Inr\<close>) and the state reached.
  A statement's \<open>eval\<close> returns Python's \<open>None\<close>, which is also the value nil.
\<close>

type_synonym ('a, 'v) res = "((exn + 'v) \<times> 'a state) option"

definition andthen :: "('a, 'v) res \<Rightarrow> ('v \<Rightarrow> 'a state \<Rightarrow> ('a, 'w) res) \<Rightarrow> ('a, 'w) res" where
  "andthen m f =
     (case m of
        None \<Rightarrow> None
      | Some (Inl e, s) \<Rightarrow> Some (Inl e, s)
      | Some (Inr v, s) \<Rightarrow> f v s)"

definition raise :: "exn \<Rightarrow> 'a state \<Rightarrow> ('a, 'v) res" where
  "raise e s = Some (Inl e, s)"

definition return :: "'v \<Rightarrow> 'a state \<Rightarrow> ('a, 'v) res" where
  "return v s = Some (Inr v, s)"

definition lift :: "exn + 'v \<Rightarrow> 'a state \<Rightarrow> ('a, 'v) res" where
  "lift r s = Some (r, s)"

text \<open>\<open>Var.eval\<close>: a \<open>KeyError\<close> of the lookup becomes a \<open>NameError\<close> with the name.\<close>

definition Var_eval :: "string \<Rightarrow> nat \<Rightarrow> 'a state \<Rightarrow> ('a, Value) res" where
  "Var_eval name ctx s =
     (case ctx_getitem (envs s) ctx (KStr name) of
        Inl (KeyError k) \<Rightarrow> raise (NameError name) s
      | Inl e \<Rightarrow> raise e s
      | Inr v \<Rightarrow> return v s)"

text \<open>The stores of \<open>Assign.eval\<close>, \<open>VarDef.eval\<close> and \<open>Setattr.eval\<close>, after the
  value has been evaluated.\<close>

definition Assign_store :: "string \<Rightarrow> Value \<Rightarrow> nat \<Rightarrow> 'a state \<Rightarrow> ('a, Value) res" where
  "Assign_store name v0 ctx s =
     (case auto_convert name v0 of
        Inl e \<Rightarrow> raise e s
      | Inr v \<Rightarrow> (case ctx_setitem (envs s) ctx (KStr name) v of
                   Inl e \<Rightarrow> raise e s
                 | Inr fs \<Rightarrow> return v (s\<lparr>envs := fs\<rparr>)))"

definition VarDef_store :: "string \<Rightarrow> Value \<Rightarrow> nat \<Rightarrow> 'a state \<Rightarrow> ('a, Value) res" where
  "VarDef_store name v0 ctx s =
     (case auto_convert name v0 of
        Inl e \<Rightarrow> raise e s
      | Inr v \<Rightarrow> return VNone (s\<lparr>envs := var_def (envs s) ctx (KStr name) v\<rparr>))"

definition Setattr_store ::
  "'a host \<Rightarrow> Value \<Rightarrow> string \<Rightarrow> Value \<Rightarrow> 'a state \<Rightarrow> ('a, Value) res" where
  "Setattr_store h obj attr v0 s =
     (case auto_convert attr v0 of
        Inl e \<Rightarrow> raise e s
      | Inr v \<Rightarrow> (case host_setattr h obj attr v (objs s) of
                   Inl e \<Rightarrow> raise e s
                 | Inr hp \<Rightarrow> return v (s\<lparr>objs := hp\<rparr>)))"

text \<open>
  \<open>LoxFunction.call\<close>, after the check of the argument count and up to the evaluation of
  the body: the new environment whose parent is the closure, with each parameter bound
  to its argument (\<open>zip\<close> pairs them in order).
\<close>

definition call_frame :: "key list \<Rightarrow> Value list \<Rightarrow> nat \<Rightarrow> frame list \<Rightarrow> frame list" where
  "call_frame params args closure fs =
     foldl (\<lambda>fs' (p, a). var_def fs' (length fs) p a) (Ctx [] (Some closure) fs) (zip params args)"

text \<open>
  The \<open>try\<close> statement of \<open>LoxFunction.call\<close> around the evaluation of the body:
  \<open>except LoxReturn as ret: return ret.value\<close>, and \<open>return None\<close> after a body that
  completed; any other exception passes.
\<close>

definition catch_return :: "('a, Value) res \<Rightarrow> ('a, Value) res" where
  "catch_return m =
     (case m of
        None \<Rightarrow> None
      | Some (Inl (LoxReturn v), s1) \<Rightarrow> return v s1
      | Some (Inl e, s1) \<Rightarrow> raise e s1
      | Some (Inr v, s1) \<Rightarrow> return VNone s1)"

text \<open>
  \<open>eval\<close> is the method \<open>eval\<close> of each node class, \<open>eval_stmts\<close> the loop
  \<open>for stmt in self.stmts: stmt.eval(ctx)\<close> of \<open>Program.eval\<close> and \<open>Block.eval\<close>,
  \<open>eval_params\<close> the list comprehension of \<open>Call.eval\<close>, and \<open>LoxFunction_call\<close> the
  method \<open>call\<close> of runtime.py (reached through \<open>__call__\<close>). Every call uses one unit
  of fuel.
\<close>

function eval :: "'a host \<Rightarrow> nat \<Rightarrow> node \<Rightarrow> nat \<Rightarrow> 'a state \<Rightarrow> ('a, Value) res"
and eval_stmts :: "'a host \<Rightarrow> nat \<Rightarrow> node list \<Rightarrow> nat \<Rightarrow> 'a state \<Rightarrow> ('a, Value) res"
and eval_params :: "'a host \<Rightarrow> nat \<Rightarrow> node list \<Rightarrow> nat \<Rightarrow> 'a state \<Rightarrow> ('a, Value list) res"
and LoxFunction_call ::
  "'a host \<Rightarrow> nat \<Rightarrow> string \<Rightarrow> key list \<Rightarrow> node \<Rightarrow> nat \<Rightarrow> Value list \<Rightarrow> 'a state \<Rightarrow> ('a, Value) res"
where
  "eval h 0 e ctx s = None"
| "eval h (Suc n) (Program stmts) ctx s = eval_stmts h n stmts ctx s"
| "eval h (Suc n) (DoWhileStmt body condition) ctx s =
     andthen (eval h n body ctx s) (\<lambda>_ s1.
     andthen (eval h n condition ctx s1) (\<lambda>c s2.
       if \<not> is_truthy c then return VNone s2
       else eval h n (DoWhileStmt body condition) ctx s2))"
| "eval h (Suc n) (BinOp left right op) ctx s =
     andthen (eval h n left ctx s) (\<lambda>left_value s1.
     andthen (eval h n right ctx s1) (\<lambda>right_value s2.
       case apply_binop op left_value right_value of
         Inl e \<Rightarrow> raise e s2
       | Inr result \<Rightarrow> return (binop_result left_value right_value result) s2))"
| "eval h (Suc n) (Var name) ctx s = Var_eval name ctx s"
| "eval h (Suc n) (Literal v) ctx s = return v s"
| "eval h (Suc n) (And left right) ctx s =
     andthen (eval h n left ctx s) (\<lambda>left_value s1.
       if \<not> is_truthy left_value then return left_value s1
       else eval h n right ctx s1)"
| "eval h (Suc n) (Or left right) ctx s =
     andthen (eval h n left ctx s) (\<lambda>left_value s1.
       if is_truthy left_value then return left_value s1
       else eval h n right ctx s1)"
| "eval h (Suc n) (UnaryOp op e) ctx s =
     andthen (eval h n e ctx s) (\<lambda>v s1. lift (apply_unop op v) s1)"
| "eval h (Suc n) (Call callee params) ctx s =
     andthen (eval h n callee ctx s) (\<lambda>obj s1.
     andthen (eval_params h n params ctx s1) (\<lambda>args s2.
       case obj of
         VFun name ps body closure \<Rightarrow> LoxFunction_call h n name ps body closure args s2
       | _ \<Rightarrow> raise (TypeError (NotAFunction callee)) s2))"
| "eval h (Suc n) (Assign name e) ctx s =
     andthen (eval h n e ctx s) (\<lambda>v s1. Assign_store name v ctx s1)"
| "eval h (Suc n) (Getattr e attr) ctx s =
     andthen (eval h n e ctx s) (\<lambda>obj s1. lift (host_getattr h obj attr (objs s1)) s1)"
| "eval h (Suc n) (Setattr obj_e attr e) ctx s =
     andthen (eval h n obj_e ctx s) (\<lambda>obj s1.
     andthen (eval h n e ctx s1) (\<lambda>v s2. Setattr_store h obj attr v s2))"
| "eval h (Suc n) (Print e) ctx s =
     andthen (eval h n e ctx s) (\<lambda>v s1.
       return VNone (s1\<lparr>out := out s1 @ [lox_str h v]\<rparr>))"
| "eval h (Suc n) (Return None) ctx s = raise (LoxReturn VNone) s"
| "eval h (Suc n) (Return (Some e)) ctx s =
     andthen (eval h n e ctx s) (\<lambda>return_value s1. raise (LoxReturn return_value) s1)"
| "eval h (Suc n) (VarDef name None ty) ctx s = VarDef_store name VNone ctx s"
| "eval h (Suc n) (VarDef name (Some e) ty) ctx s =
     andthen (eval h n e ctx s) (\<lambda>v s1. VarDef_store name v ctx s1)"
| "eval h (Suc n) (If_stmt cond then_branch else_branch) ctx s =
     andthen (eval h n cond ctx s) (\<lambda>c s1.
       if is_truthy c then eval h n then_branch ctx s1
       else (case else_branch of
               Some e \<Rightarrow> eval h n e ctx s1
             | None \<Rightarrow> return VNone s1))"
| "eval h (Suc n) (While e stmt) ctx s =
     andthen (eval h n e ctx s) (\<lambda>c s1.
       if is_truthy c then
         andthen (eval h n stmt ctx s1) (\<lambda>_ s2. eval h n (While e stmt) ctx s2)
       else return VNone s1)"
| "eval h (Suc n) (Block stmts) ctx s =
     eval_stmts h n stmts (length (envs s)) (s\<lparr>envs := Ctx [] (Some ctx) (envs s)\<rparr>)"
| "eval h (Suc n) (Function name params body) ctx s =
     return VNone (s\<lparr>envs := var_def (envs s) ctx (KStr name) (VFun name params body ctx)\<rparr>)"
| "eval_stmts h 0 stmts ctx s = None"
| "eval_stmts h (Suc n) [] ctx s = return VNone s"
| "eval_stmts h (Suc n) (stmt # stmts) ctx s =
     andthen (eval h n stmt ctx s) (\<lambda>_ s1. eval_stmts h n stmts ctx s1)"
| "eval_params h 0 params ctx s = None"
| "eval_params h (Suc n) [] ctx s = return [] s"
| "eval_params h (Suc n) (p # params) ctx s =
     andthen (eval h n p ctx s) (\<lambda>v s1.
     andthen (eval_params h n params ctx s1) (\<lambda>vs s2. return (v # vs) s2))"
| "LoxFunction_call h 0 name params body closure args s = None"
| "LoxFunction_call h (Suc n) name params body closure args s =
     (if length args \<noteq> length params then
        raise (TypeError (ExpectedArgs (length params) (length args))) s
      else
        catch_return
          (eval h n body (length (envs s))
             (s\<lparr>envs := call_frame params args closure (envs s)\<rparr>)))"
  by pat_completeness auto

termination
  by (relation "measure (\<lambda>x. case x of
      Inl (Inl (h, n, e, ctx, s)) \<Rightarrow> n
    | Inl (Inr (h, n, stmts, ctx, s)) \<Rightarrow> n
    | Inr (Inl (h, n, params, ctx, s)) \<Rightarrow> n
    | Inr (Inr (h, n, name, params, body, closure, args, s)) \<Rightarrow> n)") simp_all

text \<open>\<open>callable(obj)\<close>: of the values above only a \<open>LoxFunction\<close> is callable.\<close>

fun callable :: "Value \<Rightarrow> bool" where
  "callable (VFun name ps body closure) = True"
| "callable _ = False"



text \<open>The binding table that \<open>LoxFunction.call\<close> builds in the new environment.\<close>

definition param_bindings :: "key list \<Rightarrow> Value list \<Rightarrow> (key \<times> Value) list" where
  "param_bindings params args = foldl (\<lambda>d (p, a). dict_set d p a) [] (zip params args)"

section \<open>Building the tree of a \<open>for\<close> (transformer.py)\<close>

text \<open>
  A visit method of the transformer receives, for each child of the rule, a node already
  built or a token of the lexer.
\<close>

datatype tree = Node node | Token string

text \<open>
  The names bound in the namespace of the module transformer.py: by its own import
  statements (\<open>Callable\<close>; \<open>Transformer\<close>, \<open>v_args\<close>; \<open>op\<close>), by \<open>from .ast import *\<close>
  (ast.py declares no \<open>__all__\<close>, so these are the public names bound in ast.py: what
  it imports and what it defines), and by its own definitions. A global name that a
  function body reads is looked up there when the expression is evaluated, then among
  Python's builtins (none of which is called \<open>Token\<close>); a name found in neither raises
  \<open>NameError\<close>.
\<close>

definition transformer_globals :: "string list" where
  "transformer_globals =
     [''Callable'', ''Transformer'', ''v_args'', ''op'',
      ''ABC'', ''dataclass'', ''Ctx'', ''Node'', ''LoxReturn'', ''LoxFunction'',
      ''Value'', ''is_implicit_int'', ''auto_convert'', ''is_truthy'', ''lox_str'',
      ''Expr'', ''Stmt'', ''Program'', ''DoWhileStmt'', ''BinOp'', ''Var'', ''Literal'',
      ''And'', ''Or'', ''UnaryOp'', ''Call'', ''This'', ''Super'', ''Assign'', ''Getattr'',
      ''Setattr'', ''Print'', ''Return'', ''VarDef'', ''If'', ''While'', ''Block'',
      ''Param'', ''Function'', ''Class'',
      ''op_handler'', ''LoxTransformer'']"

definition resolve_global :: "string list \<Rightarrow> string \<Rightarrow> exn + unit" where
  "resolve_global globals name =
     (if name \<in> set globals then Inr () else Inl (NameError name))"

text \<open>
  The body of \<open>LoxTransformer.build_for\<close>, for a module namespace \<open>globals\<close>. \<open>init\<close>,
  \<open>cond\<close> and \<open>incr\<close> are \<open>None\<close> when the clause is absent. In
  \<open>init is not None and not isinstance(init, Token)\<close> the name \<open>Token\<close> is read only when
  \<open>init\<close> is not \<open>None\<close>.
\<close>

definition build_for_in ::
  "string list \<Rightarrow> tree option \<Rightarrow> node option \<Rightarrow> node option \<Rightarrow> node \<Rightarrow> exn + node" where
  "build_for_in globals init cond incr body =
     (let body1 = (case incr of Some i \<Rightarrow> Block [body, i] | None \<Rightarrow> body);
          cond1 = (case cond of None \<Rightarrow> Literal (VBool True) | Some c \<Rightarrow> c);
          while_loop = While cond1 body1
      in case init of
           None \<Rightarrow> Inr (Block [while_loop])
         | Some t \<Rightarrow>
             (case resolve_global globals ''Token'' of
                Inl e \<Rightarrow> Inl e
              | Inr _ \<Rightarrow>
                  (case t of
                     Node i \<Rightarrow> Inr (Block [i, while_loop])
                   | Token _ \<Rightarrow> Inr (Block [while_loop]))))"

text \<open>\<open>build_for\<close> as it runs: in the namespace of transformer.py.\<close>

definition build_for :: "tree option \<Rightarrow> node option \<Rightarrow> node option \<Rightarrow> node \<Rightarrow> exn + node" where
  "build_for = build_for_in transformer_globals"

section \<open>A host and a root environment for concrete runs\<close>

text \<open>
  A host without attribute storage: every \<open>getattr\<close> and \<open>setattr\<close> raises
  \<open>AttributeError\<close>, as Python does on \<open>None\<close>, a \<open>bool\<close>, a number and a \<open>str\<close> for a name
  that is not one of their attributes. The state at program start has the root
  environment at address 0 and no output.
\<close>

definition plain_host :: "unit host" where
  "plain_host =
     \<lparr>host_str = (\<lambda>v. ''<str>''),
      host_getattr = (\<lambda>obj attr hp. Inl AttributeError),
      host_setattr = (\<lambda>obj attr v hp. Inl AttributeError)\<rparr>"

definition root_state :: "unit state" where
  "root_state = \<lparr>envs = [\<lparr>scope = [], parent = None\<rparr>], out = [], objs = ()\<rparr>"

text \<open>A host whose objects accept every attribute: the storage is the list of the
  writes made.\<close>

definition recording_host :: "(Value \<times> string \<times> Value) list host" where
  "recording_host =
     \<lparr>host_str = (\<lambda>v. ''<str>''),
      host_getattr = (\<lambda>obj attr hp.
         case map_of (map (\<lambda>(ob, a, v). ((ob, a), v)) (rev hp)) (obj, attr) of
           Some v \<Rightarrow> Inr v | None \<Rightarrow> Inl AttributeError),
      host_setattr = (\<lambda>obj attr v hp. Inr (hp @ [(obj, attr, v)]))\<rparr>"

section \<open>Properties\<close>

lemmas ev = andthen_def return_def raise_def lift_def

subsection \<open>Fuel\<close>

text \<open>
  A run that returns with some fuel returns the same outcome and state with any larger
  fuel, so an outcome does not depend on the fuel that produced it. The properties below
  give the parts of a node one common fuel \<open>n\<close>; parts that return with different
  fuels return with the larger one.
\<close>

lemma andthen_mono:
  assumes "andthen m f = Some r"
    and "\<And>x. m = Some x \<Longrightarrow> m' = Some x"
    and "\<And>v s. m = Some (Inr v, s) \<Longrightarrow> f v s = Some r \<Longrightarrow> f' v s = Some r"
  shows "andthen m' f' = Some r"
  using assms by (auto simp: andthen_def split: option.splits sum.splits prod.splits)

lemma catch_return_mono:
  assumes "catch_return m = Some r" and "\<And>x. m = Some x \<Longrightarrow> m' = Some x"
  shows "catch_return m' = Some r"
  using assms by (cases m) (auto simp: catch_return_def)

lemma fuel_Suc_all:
  "(\<forall>(h::'a host) e ctx s r. eval h n e ctx s = Some r \<longrightarrow> eval h (Suc n) e ctx s = Some r)
   \<and> (\<forall>(h::'a host) stmts ctx s r. eval_stmts h n stmts ctx s = Some r \<longrightarrow>
         eval_stmts h (Suc n) stmts ctx s = Some r)
   \<and> (\<forall>(h::'a host) ps ctx s r. eval_params h n ps ctx s = Some r \<longrightarrow>
         eval_params h (Suc n) ps ctx s = Some r)
   \<and> (\<forall>(h::'a host) name params body closure args s r.
         LoxFunction_call h n name params body closure args s = Some r \<longrightarrow>
         LoxFunction_call h (Suc n) name params body closure args s = Some r)"
proof (induction n)
  case 0
  show ?case by simp
next
  case (Suc n)
  then have IHe: "\<And>(h::'a host) e ctx s r. eval h n e ctx s = Some r \<Longrightarrow> eval h (Suc n) e ctx s = Some r"
    and IHs: "\<And>(h::'a host) stmts ctx s r. eval_stmts h n stmts ctx s = Some r \<Longrightarrow>
         eval_stmts h (Suc n) stmts ctx s = Some r"
    and IHp: "\<And>(h::'a host) ps ctx s r. eval_params h n ps ctx s = Some r \<Longrightarrow>
         eval_params h (Suc n) ps ctx s = Some r"
    and IHc: "\<And>(h::'a host) name params body closure args s r.
         LoxFunction_call h n name params body closure args s = Some r \<Longrightarrow>
         LoxFunction_call h (Suc n) name params body closure args s = Some r"
    by (auto simp del: LoxFunction_call.simps)
  have e: "eval h (Suc (Suc n)) e ctx s = Some r" if "eval h (Suc n) e ctx s = Some r"
    for h :: "'a host" and e ctx s r
  proof (cases e)
    case (Return x)
    with that show ?thesis
      by (cases x) (auto elim!: andthen_mono intro: IHe)
  next
    case (VarDef x y z)
    with that show ?thesis
      by (cases y) (auto elim!: andthen_mono intro: IHe)
  next
    case (Call callee ps)
    from that show ?thesis unfolding Call
      apply (subst eval.simps, subst (asm) eval.simps)
      apply (erule andthen_mono, erule IHe)
      apply (erule andthen_mono, erule IHp)
      apply (auto split: Value.splits intro: IHc simp del: eval.simps LoxFunction_call.simps)
      done
  next
    case (DoWhileStmt b c)
    from that show ?thesis unfolding DoWhileStmt
      apply (subst eval.simps, subst (asm) eval.simps)
      apply (erule andthen_mono, erule IHe)
      apply (erule andthen_mono, erule IHe)
      apply (auto split: if_splits intro: IHe simp del: eval.simps)
      done
  next
    case (While c b)
    from that show ?thesis unfolding While
      apply (subst eval.simps, subst (asm) eval.simps)
      apply (erule andthen_mono, erule IHe)
      apply (auto split: if_splits elim!: andthen_mono intro: IHe simp del: eval.simps)
      done
  next
    case (If_stmt c t el)
    from that show ?thesis unfolding If_stmt
      apply (subst eval.simps, subst (asm) eval.simps)
      apply (erule andthen_mono, erule IHe)
      apply (auto split: if_splits option.splits intro: IHe simp del: eval.simps)
      done
  qed (use that in \<open>auto elim!: andthen_mono intro!: IHe IHs split: if_splits\<close>)
  have s: "eval_stmts h (Suc (Suc n)) stmts ctx s = Some r" if "eval_stmts h (Suc n) stmts ctx s = Some r"
    for h :: "'a host" and stmts ctx s r
    using that by (cases stmts) (auto elim!: andthen_mono intro!: IHe IHs)
  have p: "eval_params h (Suc (Suc n)) ps ctx s = Some r" if "eval_params h (Suc n) ps ctx s = Some r"
    for h :: "'a host" and ps ctx s r
    using that by (cases ps) (auto elim!: andthen_mono intro!: IHe IHp)
  have c: "LoxFunction_call h (Suc (Suc n)) name params body closure args s = Some r"
    if "LoxFunction_call h (Suc n) name params body closure args s = Some r"
    for h :: "'a host" and name params body closure args s r
    using that
    apply (subst LoxFunction_call.simps, subst (asm) LoxFunction_call.simps)
    apply (auto split: if_splits elim!: catch_return_mono intro: IHe simp del: eval.simps)
    done
  from e s p c show ?case by blast
qed


lemma eval_fuel_mono:
  assumes "eval h n e ctx s = Some r" and "n \<le> m"
  shows "eval h m e ctx s = Some r"
proof -
  have "eval h (n + k) e ctx s = Some r" for k
  proof (induction k)
    case 0
    from assms(1) show ?case by simp
  next
    case (Suc k)
    with fuel_Suc_all [of "n + k"] show ?case
      by (metis add_Suc_right)
  qed
  from this [of "m - n"] assms(2) show ?thesis by simp
qed

lemma call_fuel_mono:
  assumes "LoxFunction_call h n name params body closure args s = Some r" and "n \<le> m"
  shows "LoxFunction_call h m name params body closure args s = Some r"
proof -
  have "LoxFunction_call h (n + k) name params body closure args s = Some r" for k
  proof (induction k)
    case 0
    from assms(1) show ?case by (simp del: LoxFunction_call.simps)
  next
    case (Suc k)
    with fuel_Suc_all [of "n + k"] show ?case
      by (metis add_Suc_right)
  qed
  from this [of "m - n"] assms(2) show ?thesis by (simp del: LoxFunction_call.simps)
qed

lemma eval_fuel_unique:
  assumes "eval h n e ctx s = Some r" and "eval h m e ctx s = Some r'"
  shows "r = r'"
proof -
  from assms(1) have "eval h (max n m) e ctx s = Some r" by (rule eval_fuel_mono) simp
  moreover from assms(2) have "eval h (max n m) e ctx s = Some r'" by (rule eval_fuel_mono) simp
  ultimately show ?thesis by simp
qed

subsection \<open>Environments and call frames\<close>

lemma dict_set_lookup: "map_of (dict_set d k v) k = Some v"
  by (induction d k v rule: dict_set.induct) auto

lemma call_frame_fold:
  "foldl (\<lambda>fs' (p, a). var_def fs' (length fs) p a) (fs @ [\<lparr>scope = d, parent = q\<rparr>]) pas
   = fs @ [\<lparr>scope = foldl (\<lambda>d (p, a). dict_set d p a) d pas, parent = q\<rparr>]"
  by (induction pas arbitrary: d) (auto simp: var_def_def)

lemma call_frame_eq:
  "call_frame params args closure fs
   = fs @ [\<lparr>scope = param_bindings params args, parent = Some closure\<rparr>]"
  by (simp add: call_frame_def Ctx_def param_bindings_def call_frame_fold)

lemma var_def_getitem:
  "a < length fs \<Longrightarrow> ctx_getitem (var_def fs a k v) a k = Inr v"
  by (cases "length fs") (auto simp: ctx_getitem_def var_def_def dict_set_lookup)

subsection \<open>The environment of a function body\<close>

text \<open>
  C1, as the code has it. When a function value is called with as many arguments as it
  has parameters, the body block is evaluated by the ordinary rule of \<open>Block.eval\<close>
  against the call frame: the frame is the new environment at address
  \<open>length (envs s)\<close>, its parent is the closure and its table holds the parameter
  bindings; the statements of the body run against a second new environment, at the
  next address, whose table starts empty and whose parent is the call frame. A
  declaration at the top level of the body therefore binds in that second table, not in
  the table of the parameters.
\<close>

theorem call_body_scope:
  assumes "length args = length params"
  shows "LoxFunction_call h (Suc (Suc n)) name params (Block stmts) closure args s =
     catch_return (eval_stmts h n stmts (Suc (length (envs s)))
       (s\<lparr>envs := envs s @ [\<lparr>scope = param_bindings params args, parent = Some closure\<rparr>,
                            \<lparr>scope = [], parent = Some (length (envs s))\<rparr>]\<rparr>))"
  using assms by (simp add: call_frame_eq Ctx_def)

theorem call_body_scope_witness:
  "length [VFloat 7] = length [KStr ''a''] \<and>
   LoxFunction_call plain_host (Suc (Suc 3)) ''f'' [KStr ''a'']
     (Block [VarDef ''x'' (Some (Literal (VFloat 1))) None]) 0 [VFloat 7] root_state
   = catch_return (eval_stmts plain_host 3 [VarDef ''x'' (Some (Literal (VFloat 1))) None] 2
       (root_state\<lparr>envs := [\<lparr>scope = [], parent = None\<rparr>,
         \<lparr>scope = [(KStr ''a'', VFloat 7)], parent = Some 0\<rparr>,
         \<lparr>scope = [], parent = Some 1\<rparr>]\<rparr>))"
  using call_body_scope [of "[VFloat 7]" "[KStr ''a'']" plain_host 3 "''f''"
      "[VarDef ''x'' (Some (Literal (VFloat 1))) None]" 0 root_state]
  by (simp add: root_state_def param_bindings_def numeral_2_eq_2)

text \<open>
  C1 as stated fails: calling \<open>fun f(a) { var x = 1; }\<close> with the argument 7 from the
  root environment leaves \<open>a\<close> in the call frame (address 1, parent 0) and \<open>x\<close> in a
  nested environment beneath it (address 2, parent 1).
\<close>

theorem body_locals_counterexample:
  "LoxFunction_call plain_host 5 ''f'' [KStr ''a'']
     (Block [VarDef ''x'' (Some (Literal (VFloat 1))) None]) 0 [VFloat 7] root_state
   = Some (Inr VNone, root_state\<lparr>envs :=
        [\<lparr>scope = [], parent = None\<rparr>,
         \<lparr>scope = [(KStr ''a'', VFloat 7)], parent = Some 0\<rparr>,
         \<lparr>scope = [(KStr ''x'', VFloat 1)], parent = Some 1\<rparr>]\<rparr>)"
  by (simp add: eval_nat_numeral ev catch_return_def root_state_def call_frame_def Ctx_def
      var_def_def VarDef_store_def auto_convert_def is_implicit_int_def)

subsection \<open>Whole results of binary operations\<close>







subsection \<open>The tree of a \<open>for\<close>\<close>

lemma build_for_init_raises: "build_for (Some init) cond incr body = Inl (NameError ''Token'')"
  by (simp add: build_for_def build_for_in_def resolve_global_def transformer_globals_def Let_def)

lemma build_for_without_init:
  "build_for None cond incr body =
     Inr (Block [While (case cond of None \<Rightarrow> Literal (VBool True) | Some c \<Rightarrow> c)
                       (case incr of Some i \<Rightarrow> Block [body, i] | None \<Rightarrow> body)])"
  by (simp add: build_for_def build_for_in_def Let_def)

text \<open>
  In a namespace that binds \<open>Token\<close> the same body builds the tree that C3 describes:
  the init clause, when it is a node, comes first in the block, and a placeholder token
  is dropped.
\<close>

lemma build_for_in_with_Token:
  assumes "''Token'' \<in> set globals"
  shows "build_for_in globals (Some (Node init)) cond incr body =
           Inr (Block [init,
                  While (case cond of None \<Rightarrow> Literal (VBool True) | Some c \<Rightarrow> c)
                        (case incr of Some i \<Rightarrow> Block [body, i] | None \<Rightarrow> body)])"
    and "build_for_in globals (Some (Token t)) cond incr body =
           Inr (Block [While (case cond of None \<Rightarrow> Literal (VBool True) | Some c \<Rightarrow> c)
                             (case incr of Some i \<Rightarrow> Block [body, i] | None \<Rightarrow> body)])"
  using assms by (simp_all add: build_for_in_def resolve_global_def Let_def)

text \<open>
  The tree that C3 describes for \<open>for (i = 0; i < 3; i = i + 1) print i;\<close>, evaluated
  after \<open>var i;\<close>, prints 0, 1, 2.
\<close>

lemma desugared_for_prints:
  "map_option (\<lambda>r. (fst r, out (snd r)))
     (eval plain_host 40
        (Program [VarDef ''i'' None None,
           Block [Assign ''i'' (Literal (VFloat 0)),
             While (BinOp (Var ''i'') (Literal (VFloat 3)) op_lt)
               (Block [Print (Var ''i''),
                       Assign ''i'' (BinOp (Var ''i'') (Literal (VFloat 1)) op_add)])]])
        0 root_state)
   = Some (Inr VNone, [''0'', ''1'', ''2''])"
  by code_simp

text \<open>
  C3 at \<open>for (i = 0; i < 3; i = i + 1) print i;\<close>: \<open>build_for\<close> does not return the tree.
  Its init clause is present, so \<open>isinstance(init, Token)\<close> is evaluated; transformer.py
  never binds the name \<open>Token\<close>, and the call raises \<open>NameError\<close>.
\<close>

theorem build_for_example_raises:
  "build_for (Some (Node (Assign ''i'' (Literal (VFloat 0)))))
     (Some (BinOp (Var ''i'') (Literal (VFloat 3)) op_lt))
     (Some (Assign ''i'' (BinOp (Var ''i'') (Literal (VFloat 1)) op_add)))
     (Print (Var ''i''))
   = Inl (NameError ''Token'')"
  by (simp add: build_for_def build_for_in_def resolve_global_def transformer_globals_def Let_def)

subsection \<open>Stores under an implicit-integer name\<close>

lemma auto_convert_float:
  "is_implicit_int name \<Longrightarrow> auto_convert name (VFloat r) = Inr (VInt (int_of_float r))"
  by (simp add: auto_convert_def)

lemma auto_convert_bool:
  "is_implicit_int name \<Longrightarrow> auto_convert name (VBool b) = Inr (VInt (if b then 1 else 0))"
  by (simp add: auto_convert_def)

lemma auto_convert_decimal:
  "is_implicit_int name \<Longrightarrow> s \<noteq> [] \<Longrightarrow> list_all is_decimal_char s \<Longrightarrow>
   auto_convert name (VStr s) = Inr (VInt (decimal_val s))"
  by (auto simp: auto_convert_def str_isdigit_def int_of_digit_str_def is_digit_char_def
      list_all_iff)

lemma auto_convert_other_str:
  "\<not> str_isdigit s \<Longrightarrow> auto_convert name (VStr s) = Inr (VStr s)"
  by (simp add: auto_convert_def)

lemma auto_convert_examples:
  "auto_convert ''i'' (VFloat 3) = Inr (VInt 3)"
  "auto_convert ''j'' (VStr ''5'') = Inr (VInt 5)"
  "auto_convert ''k'' (VBool True) = Inr (VInt 1)"
  "auto_convert ''n'' (VStr ''abc'') = Inr (VStr ''abc'')"
  "auto_convert ''x'' (VFloat 3) = Inr (VFloat 3)"
  by (simp_all add: auto_convert_def is_implicit_int_def int_of_float_def str_isdigit_def
      is_digit_char_def is_decimal_char_def int_of_digit_str_def decimal_val_def digit_val_def)

text \<open>
  \<open>Setattr.eval\<close> hands the converted value to \<open>setattr\<close> and returns it.
\<close>

lemma setattr_stores_converted:
  "eval recording_host 2 (Setattr (Literal obj) ''n'' (Literal (VFloat 3))) 0
     \<lparr>envs = [], out = [], objs = []\<rparr>
   = Some (Inr (VInt 3), \<lparr>envs = [], out = [], objs = [(obj, ''n'', VInt 3)]\<rparr>)"
  by (simp add: eval_nat_numeral ev Setattr_store_def auto_convert_def is_implicit_int_def
      int_of_float_def recording_host_def)

text \<open>
  C4 at the one-character string U+00B2 (superscript two) stored under \<open>i\<close>:
  \<open>isdigit()\<close> holds, \<open>int\<close> rejects the string, and \<open>auto_convert\<close> raises \<open>ValueError\<close>;
  a declaration of \<open>i\<close> initialised with that string neither stores an integer nor
  passes the string through.
\<close>

theorem auto_convert_superscript_raises:
  "str_isdigit [CHR 0xB2]
   \<and> auto_convert ''i'' (VStr [CHR 0xB2]) = Inl ValueError
   \<and> eval plain_host 2 (VarDef ''i'' (Some (Literal (VStr [CHR 0xB2]))) None) 0 root_state
       = Some (Inl ValueError, root_state)"
  by (simp add: eval_nat_numeral ev VarDef_store_def auto_convert_def is_implicit_int_def
      str_isdigit_def is_digit_char_def is_decimal_char_def int_of_digit_str_def)

subsection \<open>Short-circuit operators\<close>

text \<open>
  C5. Once the left operand of \<open>And\<close> has evaluated to a value \<open>lv\<close> in state \<open>s1\<close>: if
  \<open>lv\<close> is falsy the node returns \<open>lv\<close> in \<open>s1\<close>, whatever the right operand is (it is
  not evaluated, so no effect of it occurs); otherwise the node is the evaluation of the
  right operand from \<open>s1\<close>. \<open>Or\<close> returns \<open>lv\<close> in \<open>s1\<close> when \<open>lv\<close> is truthy and is the
  evaluation of the right operand otherwise.
\<close>

theorem short_circuit:
  assumes "eval h n left ctx s = Some (Inr lv, s1)"
  shows "eval h (Suc n) (And left right) ctx s =
           (if \<not> is_truthy lv then Some (Inr lv, s1) else eval h n right ctx s1)
       \<and> eval h (Suc n) (Or left right) ctx s =
           (if is_truthy lv then Some (Inr lv, s1) else eval h n right ctx s1)"
  using assms by (simp add: ev)

text \<open>
  With the assignment \<open>x = 1\<close> to an undeclared \<open>x\<close> on the right: after \<open>false\<close>,
  \<open>and\<close> returns \<open>false\<close> and the assignment's error does not occur, while \<open>or\<close>
  evaluates the assignment, which raises; after \<open>true\<close> it is the other way round.
\<close>

theorem short_circuit_witness:
  "eval plain_host 2 (Literal (VBool False)) 0 root_state = Some (Inr (VBool False), root_state)
   \<and> eval plain_host 3 (And (Literal (VBool False)) (Assign ''x'' (Literal (VFloat 1)))) 0 root_state
       = Some (Inr (VBool False), root_state)
   \<and> eval plain_host 3 (Or (Literal (VBool False)) (Assign ''x'' (Literal (VFloat 1)))) 0 root_state
       = Some (Inl (KeyError (KStr ''x'')), root_state)
   \<and> eval plain_host 2 (Literal (VBool True)) 0 root_state = Some (Inr (VBool True), root_state)
   \<and> eval plain_host 3 (Or (Literal (VBool True)) (Assign ''x'' (Literal (VFloat 1)))) 0 root_state
       = Some (Inr (VBool True), root_state)
   \<and> eval plain_host 3 (And (Literal (VBool True)) (Assign ''x'' (Literal (VFloat 1)))) 0 root_state
       = Some (Inl (KeyError (KStr ''x'')), root_state)"
proof -
  have a: "eval plain_host 2 (Literal (VBool False)) 0 root_state
           = Some (Inr (VBool False), root_state)"
    by (simp add: eval_nat_numeral ev)
  have b: "eval plain_host 2 (Literal (VBool True)) 0 root_state
           = Some (Inr (VBool True), root_state)"
    by (simp add: eval_nat_numeral ev)
  from short_circuit [OF a, of "Assign ''x'' (Literal (VFloat 1))"]
    short_circuit [OF b, of "Assign ''x'' (Literal (VFloat 1))"] a b
  show ?thesis
    by (simp add: eval_nat_numeral ev Assign_store_def auto_convert_def is_implicit_int_def
        ctx_setitem_def root_state_def)
qed

subsection \<open>Return\<close>





text \<open>
  The signal stops at the nearest call: in
  \<open>fun inner() { return 7; }  fun outer() { print inner(); return 8; }  print outer();\<close>
  the \<open>return\<close> of \<open>inner\<close> ends \<open>inner\<close> only; \<open>outer\<close> goes on, prints 7 and returns 8.
\<close>

lemma nested_return_example:
  "map_option (\<lambda>r. (fst r, out (snd r)))
     (eval plain_host 20
        (Program
          [Function ''inner'' [] (Block [Return (Some (Literal (VFloat 7)))]),
           Function ''outer'' []
             (Block [Print (Call (Var ''inner'') []), Return (Some (Literal (VFloat 8)))]),
           Print (Call (Var ''outer'') [])])
        0 root_state)
   = Some (Inr VNone, [''7'', ''8''])"
  by code_simp


subsection \<open>Errors of a call\<close>

text \<open>
  C7. Once the callee of a \<open>Call\<close> has evaluated to \<open>obj\<close> and the arguments to \<open>args\<close>:
  if \<open>obj\<close> is not callable the node raises the \<open>TypeError\<close> that names the callee
  expression; if \<open>obj\<close> is a function whose number of parameters differs from the number
  of arguments, the node raises the \<open>TypeError\<close> that reports the expected and the actual
  count. (The code raises Python's \<open>TypeError\<close> in both cases; the two are told apart
  by what they report.)
\<close>

theorem call_errors:
  assumes "eval h n callee ctx s = Some (Inr obj, s1)"
    and "eval_params h n params ctx s1 = Some (Inr args, s2)"
  shows "(\<not> callable obj \<longrightarrow>
            eval h (Suc n) (Call callee params) ctx s
              = Some (Inl (TypeError (NotAFunction callee)), s2))
       \<and> (\<forall>name ps body closure. obj = VFun name ps body closure \<and> length args \<noteq> length ps \<longrightarrow>
            eval h (Suc n) (Call callee params) ctx s
              = Some (Inl (TypeError (ExpectedArgs (length ps) (length args))), s2))"
proof -
  from assms(1) obtain m where n: "n = Suc m" by (cases n) auto
  show ?thesis
    using assms unfolding n by (cases obj) (auto simp: ev)
qed

text \<open>
  In the state after \<open>fun f(a) { }\<close>: the call \<open>3()\<close> and the call \<open>f()\<close>.
\<close>

theorem call_errors_witness:
  "eval plain_host 2 (Literal (VFloat 3)) 0 root_state = Some (Inr (VFloat 3), root_state)
   \<and> eval_params plain_host 2 [] 0 root_state = Some (Inr [], root_state)
   \<and> \<not> callable (VFloat 3)
   \<and> eval plain_host 3 (Call (Literal (VFloat 3)) []) 0 root_state
       = Some (Inl (TypeError (NotAFunction (Literal (VFloat 3)))), root_state)
   \<and> eval plain_host 1 (Function ''f'' [KObj (Param ''a'' None)] (Block [])) 0 root_state
       = Some (Inr VNone, root_state\<lparr>envs :=
           [\<lparr>scope = [(KStr ''f'', VFun ''f'' [KObj (Param ''a'' None)] (Block []) 0)],
             parent = None\<rparr>]\<rparr>)
   \<and> eval plain_host 3 (Call (Var ''f'') []) 0
         (root_state\<lparr>envs :=
           [\<lparr>scope = [(KStr ''f'', VFun ''f'' [KObj (Param ''a'' None)] (Block []) 0)],
             parent = None\<rparr>]\<rparr>)
       = Some (Inl (TypeError (ExpectedArgs 1 0)),
           root_state\<lparr>envs :=
           [\<lparr>scope = [(KStr ''f'', VFun ''f'' [KObj (Param ''a'' None)] (Block []) 0)],
             parent = None\<rparr>]\<rparr>)"
proof -
  let ?f = "VFun ''f'' [KObj (Param ''a'' None)] (Block []) 0"
  let ?s = "root_state\<lparr>envs := [\<lparr>scope = [(KStr ''f'', ?f)], parent = None\<rparr>]\<rparr>"
  have a: "eval plain_host 2 (Literal (VFloat 3)) 0 root_state = Some (Inr (VFloat 3), root_state)"
    by (simp add: eval_nat_numeral ev)
  have b: "eval_params plain_host 2 [] 0 root_state = Some (Inr [], root_state)"
    by (simp add: eval_nat_numeral ev)
  have c: "eval plain_host 2 (Var ''f'') 0 ?s = Some (Inr ?f, ?s)"
    by (simp add: eval_nat_numeral ev Var_eval_def ctx_getitem_def root_state_def)
  have d: "eval_params plain_host 2 [] 0 ?s = Some (Inr [], ?s)"
    by (simp add: eval_nat_numeral ev)
  have e: "eval plain_host 1 (Function ''f'' [KObj (Param ''a'' None)] (Block [])) 0 root_state
       = Some (Inr VNone, ?s)"
    by (simp add: ev var_def_def root_state_def)
  from call_errors [OF a b] call_errors [OF c d] a b e show ?thesis
    by (simp add: eval_nat_numeral)
qed

subsection \<open>Loops\<close>

text \<open>
  C8. A \<open>While\<close> whose condition evaluates to a falsy value ends in the state reached by
  that one evaluation of the condition: its body, whatever it is, has not run. A
  \<open>DoWhileStmt\<close> evaluates its body first (an exception of the body is the exception of
  the loop, the condition not having been looked at); when the condition evaluated
  after the body is falsy, the loop ends in the state reached by one run of the body and
  one evaluation of the condition. When the condition is truthy each loop goes on from
  the state reached.
\<close>

theorem loops_first_test:
  "(eval h n e ctx s = Some (Inr c, s') \<and> \<not> is_truthy c \<longrightarrow>
      eval h (Suc n) (While e stmt) ctx s = Some (Inr VNone, s'))
   \<and> (eval h n body ctx s = Some (Inr b, s') \<and> eval h n condition ctx s' = Some (Inr c, s'')
        \<and> \<not> is_truthy c \<longrightarrow>
      eval h (Suc n) (DoWhileStmt body condition) ctx s = Some (Inr VNone, s''))
   \<and> (eval h n body ctx s = Some (Inl x, s') \<longrightarrow>
      eval h (Suc n) (DoWhileStmt body condition) ctx s = Some (Inl x, s'))
   \<and> (eval h n body ctx s = Some (Inr b, s') \<and> eval h n condition ctx s' = Some (Inr c, s'')
        \<and> is_truthy c \<longrightarrow>
      eval h (Suc n) (DoWhileStmt body condition) ctx s
        = eval h n (DoWhileStmt body condition) ctx s'')
   \<and> (eval h n e ctx s = Some (Inr c, s') \<and> is_truthy c
        \<and> eval h n stmt ctx s' = Some (Inr b, s'') \<longrightarrow>
      eval h (Suc n) (While e stmt) ctx s = eval h n (While e stmt) ctx s'')"
  by (simp add: ev)

text \<open>
  \<open>while (false) print "x";\<close> prints nothing; \<open>do print "x"; while (false);\<close> prints
  one line; a \<open>do\<close> whose body is \<open>return;\<close> ends with the signal of its body. With
  \<open>i\<close> holding 0, \<open>do i = i + 1; while (i < 2);\<close> goes round twice and
  \<open>while (i < 1) i = i + 1;\<close> once.
\<close>

theorem loops_first_test_witness:
  "eval plain_host 2 (Literal (VBool False)) 0 root_state = Some (Inr (VBool False), root_state)
   \<and> \<not> is_truthy (VBool False)
   \<and> eval plain_host 3 (While (Literal (VBool False)) (Print (Literal (VStr ''x'')))) 0 root_state
       = Some (Inr VNone, root_state)
   \<and> eval plain_host 2 (Print (Literal (VStr ''x''))) 0 root_state
       = Some (Inr VNone, root_state\<lparr>out := [''x'']\<rparr>)
   \<and> eval plain_host 3 (DoWhileStmt (Print (Literal (VStr ''x''))) (Literal (VBool False))) 0 root_state
       = Some (Inr VNone, root_state\<lparr>out := [''x'']\<rparr>)
   \<and> eval plain_host 3 (DoWhileStmt (Return None) (Literal (VBool False))) 0 root_state
       = Some (Inl (LoxReturn VNone), root_state)
   \<and> eval plain_host 5
         (DoWhileStmt (Assign ''i'' (BinOp (Var ''i'') (Literal (VFloat 1)) op_add))
                      (BinOp (Var ''i'') (Literal (VFloat 2)) op_lt))
         0 (root_state\<lparr>envs := [\<lparr>scope = [(KStr ''i'', VInt 0)], parent = None\<rparr>]\<rparr>)
       = Some (Inr VNone, root_state\<lparr>envs := [\<lparr>scope = [(KStr ''i'', VInt 2)], parent = None\<rparr>]\<rparr>)
   \<and> eval plain_host 5
         (While (BinOp (Var ''i'') (Literal (VFloat 1)) op_lt)
                (Assign ''i'' (BinOp (Var ''i'') (Literal (VFloat 1)) op_add)))
         0 (root_state\<lparr>envs := [\<lparr>scope = [(KStr ''i'', VInt 0)], parent = None\<rparr>]\<rparr>)
       = Some (Inr VNone, root_state\<lparr>envs := [\<lparr>scope = [(KStr ''i'', VInt 1)], parent = None\<rparr>]\<rparr>)"
proof -
  let ?i0 = "root_state\<lparr>envs := [\<lparr>scope = [(KStr ''i'', VInt 0)], parent = None\<rparr>]\<rparr>"
  let ?i1 = "root_state\<lparr>envs := [\<lparr>scope = [(KStr ''i'', VInt 1)], parent = None\<rparr>]\<rparr>"
  let ?i2 = "root_state\<lparr>envs := [\<lparr>scope = [(KStr ''i'', VInt 2)], parent = None\<rparr>]\<rparr>"
  let ?inc = "Assign ''i'' (BinOp (Var ''i'') (Literal (VFloat 1)) op_add)"
  let ?lt2 = "BinOp (Var ''i'') (Literal (VFloat 2)) op_lt"
  let ?lt1 = "BinOp (Var ''i'') (Literal (VFloat 1)) op_lt"
  note defs = eval_nat_numeral ev lox_str_def root_state_def Var_eval_def Assign_store_def
    auto_convert_def is_implicit_int_def ctx_getitem_def ctx_setitem_def var_def_def
    binop_result_def py_add_def py_lt_def int_of_float_def
  have a: "eval plain_host 2 (Literal (VBool False)) 0 root_state
           = Some (Inr (VBool False), root_state)"
    by (simp add: eval_nat_numeral ev)
  have b: "eval plain_host 2 (Print (Literal (VStr ''x''))) 0 root_state
           = Some (Inr VNone, root_state\<lparr>out := [''x'']\<rparr>)"
    by (simp add: eval_nat_numeral ev lox_str_def root_state_def)
  have c: "eval plain_host 2 (Literal (VBool False)) 0 (root_state\<lparr>out := [''x'']\<rparr>)
           = Some (Inr (VBool False), root_state\<lparr>out := [''x'']\<rparr>)"
    by (simp add: eval_nat_numeral ev)
  have d: "eval plain_host 2 (Return None) 0 root_state = Some (Inl (LoxReturn VNone), root_state)"
    by (simp add: eval_nat_numeral ev)
  have e: "eval plain_host 4 ?inc 0 ?i0 = Some (Inr (VInt 1), ?i1)"
    by (simp add: defs)
  have f: "eval plain_host 4 ?lt2 0 ?i1 = Some (Inr (VBool True), ?i1)"
    by (simp add: defs)
  have g: "eval plain_host 4 (DoWhileStmt ?inc ?lt2) 0 ?i1 = Some (Inr VNone, ?i2)"
    by (simp add: defs)
  have k: "eval plain_host 4 ?lt1 0 ?i0 = Some (Inr (VBool True), ?i0)"
    by (simp add: defs)
  have l: "eval plain_host 4 (While ?lt1 ?inc) 0 ?i1 = Some (Inr VNone, ?i1)"
    by (simp add: defs)
  from loops_first_test [where h = plain_host and n = 2 and ctx = 0 and s = root_state
      and e = "Literal (VBool False)" and c = "VBool False" and s' = root_state
      and stmt = "Print (Literal (VStr ''x''))"]
    loops_first_test [where h = plain_host and n = 2 and ctx = 0 and s = root_state
      and body = "Print (Literal (VStr ''x''))" and b = VNone
      and s' = "root_state\<lparr>out := [''x'']\<rparr>" and condition = "Literal (VBool False)"
      and c = "VBool False" and s'' = "root_state\<lparr>out := [''x'']\<rparr>"]
    loops_first_test [where h = plain_host and n = 2 and ctx = 0 and s = root_state
      and body = "Return None" and x = "LoxReturn VNone" and s' = root_state
      and condition = "Literal (VBool False)"]
    loops_first_test [where h = plain_host and n = 4 and ctx = 0 and s = ?i0
      and body = ?inc and b = "VInt 1" and s' = ?i1 and condition = ?lt2
      and c = "VBool True" and s'' = ?i1]
    loops_first_test [where h = plain_host and n = 4 and ctx = 0 and s = ?i0
      and e = ?lt1 and c = "VBool True" and s' = ?i0 and stmt = ?inc and b = "VInt 1"
      and s'' = ?i1]
    a b c d e f g k l
  show ?thesis
    by (simp add: eval_nat_numeral)
qed

subsection \<open>Logical negation\<close>



subsection \<open>Declaring an implicit-integer name without initialiser\<close>

text \<open>
  C10. For a name that begins with one of \<open>i\<close>..\<open>n\<close>, \<open>auto_convert\<close> leaves nil
  untouched, and likewise every value that is not a string, a float or a boolean (an
  \<open>int\<close>, a function); a \<open>VarDef\<close> without initialiser binds the name to nil in the
  current environment, and reading the variable there returns nil.
\<close>

theorem vardef_nil_unchanged:
  assumes "is_implicit_int name" and "ctx < length (envs s)"
  shows "auto_convert name VNone = Inr VNone
       \<and> auto_convert name (VInt i) = Inr (VInt i)
       \<and> auto_convert name (VFun f ps b c) = Inr (VFun f ps b c)
       \<and> eval h (Suc n) (VarDef name None ty) ctx s
           = Some (Inr VNone, s\<lparr>envs := var_def (envs s) ctx (KStr name) VNone\<rparr>)
       \<and> eval h (Suc m) (Var name) ctx (s\<lparr>envs := var_def (envs s) ctx (KStr name) VNone\<rparr>)
           = Some (Inr VNone, s\<lparr>envs := var_def (envs s) ctx (KStr name) VNone\<rparr>)"
  using assms by (simp add: auto_convert_def VarDef_store_def Var_eval_def var_def_getitem ev)

theorem vardef_nil_unchanged_witness:
  "is_implicit_int ''i'' \<and> (0::nat) < length (envs root_state)
   \<and> eval plain_host 1 (VarDef ''i'' None None) 0 root_state
       = Some (Inr VNone, root_state\<lparr>envs := [\<lparr>scope = [(KStr ''i'', VNone)], parent = None\<rparr>]\<rparr>)
   \<and> eval plain_host 1 (Var ''i'') 0
         (root_state\<lparr>envs := [\<lparr>scope = [(KStr ''i'', VNone)], parent = None\<rparr>]\<rparr>)
       = Some (Inr VNone, root_state\<lparr>envs := [\<lparr>scope = [(KStr ''i'', VNone)], parent = None\<rparr>]\<rparr>)"
proof -
  have a: "is_implicit_int ''i''" by (simp add: is_implicit_int_def)
  have b: "(0::nat) < length (envs root_state)" by (simp add: root_state_def)
  from vardef_nil_unchanged [OF a b, where h = plain_host and n = 0 and m = 0 and ty = None] a b
  show ?thesis
    by (simp add: root_state_def var_def_def)
qed

end
